theory Spec2Isabelle
  imports Complex_Main "HOL-Library.Sublist"
begin

section \<open>The data model of the dashboard script\<close>

text \<open>
  The script \<^verbatim>\<open>src/dashboard/app.py\<close> reads a table of crime incidents and derives
  four views from it. One row of the table is a record with the four columns the script
  reads; the remaining columns are passed through untouched and live in the record's
  extension. The \<^verbatim>\<open>Year\<close> column is an integer column; \<^verbatim>\<open>Primary Type\<close>,
  \<^verbatim>\<open>Latitude\<close> and \<^verbatim>\<open>Longitude\<close> may be blank in the file, a blank cell is
  \<open>None\<close>. The table is the list of its rows, in file order.
\<close>

record incident =
  year :: int
  primary_type :: "string option"
  latitude :: "real option"
  longitude :: "real option"

text \<open>The only exception the modelled lines can raise: \<^verbatim>\<open>int(nan)\<close> at lines 70-71.\<close>

datatype error = ValueError

subsection \<open>Sidebar: bounds of the year slider (lines 70-71)\<close>

text \<open>
  \<^verbatim>\<open>min_year = int(df["Year"].min())\<close>: the minimum of an empty column is NaN, and
  \<^verbatim>\<open>int\<close> of NaN raises ValueError.
\<close>

definition min_year :: "'a incident_scheme list \<Rightarrow> error + int" where
  "min_year df =
     (case map year df of [] \<Rightarrow> Inl ValueError | y # ys \<Rightarrow> Inr (fold min ys y))"

definition max_year :: "'a incident_scheme list \<Rightarrow> error + int" where
  "max_year df =
     (case map year df of [] \<Rightarrow> Inl ValueError | y # ys \<Rightarrow> Inr (fold max ys y))"

subsection \<open>Apply filters (lines 89-97)\<close>

text \<open>
  \<^verbatim>\<open>year_range\<close> is the pair the slider returns and \<^verbatim>\<open>selected_crime\<close> the string
  the select box returns. A boolean mask keeps the rows where it is true, in their order.
  The comparison of a blank \<^verbatim>\<open>Primary Type\<close> with a string is false.
\<close>

definition filtered_df ::
  "'a incident_scheme list \<Rightarrow> int \<times> int \<Rightarrow> string \<Rightarrow> 'a incident_scheme list" where
  "filtered_df df year_range selected_crime =
     (let filtered = filter (\<lambda>r. year r \<ge> fst year_range \<and> year r \<le> snd year_range) df
      in if selected_crime \<noteq> ''All''
         then filter (\<lambda>r. primary_type r = Some selected_crime) filtered
         else filtered)"

subsection \<open>Temporal analysis (lines 119-124)\<close>

text \<open>
  \<^verbatim>\<open>groupby("Year").size()\<close> has one group per distinct key, the groups sorted by
  key, each with the number of its rows; \<^verbatim>\<open>reset_index\<close> turns the result into rows
  (year, count) and \<^verbatim>\<open>sort_values("Year")\<close> sorts these rows by year.
\<close>

definition groupby_size :: "int list \<Rightarrow> (int \<times> nat) list" where
  "groupby_size ks = map (\<lambda>k. (k, count_list ks k)) (sort (remdups ks))"

definition sort_values :: "(int \<times> nat) list \<Rightarrow> (int \<times> nat) list" where
  "sort_values rows = sort_key fst rows"

definition yearly_counts :: "'a incident_scheme list \<Rightarrow> (int \<times> nat) list" where
  "yearly_counts fd = sort_values (groupby_size (map year fd))"

subsection \<open>Spatial distribution (lines 144-152)\<close>

text \<open>
  The random number generator belongs to the numerical library, not to the script, so it
  is a parameter: \<open>RandomState s\<close> is the generator state seeded with \<open>s\<close>, and
  \<open>permutation g n\<close> is the shuffled index list \<open>0..<n\<close> drawn from state \<open>g\<close> together
  with the state after the draw.
\<close>

record 'g rng_lib =
  RandomState :: "int \<Rightarrow> 'g"
  permutation :: "'g \<Rightarrow> nat \<Rightarrow> nat list \<times> 'g"

text \<open>What the library promises of \<open>permutation\<close>: each index below \<open>n\<close> exactly once.\<close>

definition valid_rng :: "'g rng_lib \<Rightarrow> bool" where
  "valid_rng lib \<longleftrightarrow>
     (\<forall>g n. distinct (fst (permutation lib g n)) \<and> set (fst (permutation lib g n)) = {..<n})"

text \<open>
  \<^verbatim>\<open>DataFrame.sample(n, random_state=...)\<close> takes the rows at the first \<open>n\<close> indices of
  a permutation of the row numbers. With an integer \<^verbatim>\<open>random_state\<close> the permutation is
  drawn from a generator freshly seeded with it, and the process-wide generator state
  \<open>g\<close> is neither read nor changed; without one it is drawn from \<open>g\<close>.
  The script calls it only under the guard of line 151, where \<open>n\<close> is below the number
  of rows.
\<close>

definition sample ::
  "'g rng_lib \<Rightarrow> nat \<Rightarrow> int option \<Rightarrow> 'a list \<Rightarrow> 'g \<Rightarrow> 'a list \<times> 'g" where
  "sample lib n random_state rows g =
     (case random_state of
        Some s \<Rightarrow>
          (map (\<lambda>i. rows ! i)
             (take n (fst (permutation lib (RandomState lib s) (length rows)))), g)
      | None \<Rightarrow>
          (let (locs, g') = permutation lib g (length rows)
           in (map (\<lambda>i. rows ! i) (take n locs), g')))"

definition dropna :: "(real option \<times> real option) list \<Rightarrow> (real option \<times> real option) list" where
  "dropna rows = filter (\<lambda>(lat, lon). lat \<noteq> None \<and> lon \<noteq> None) rows"

definition MAP_SAMPLE_SIZE :: nat where
  "MAP_SAMPLE_SIZE = 50000"

definition map_df ::
  "'g rng_lib \<Rightarrow> 'a incident_scheme list \<Rightarrow> 'g \<Rightarrow> (real option \<times> real option) list \<times> 'g" where
  "map_df lib fd g =
     (let m = dropna (map (\<lambda>r. (latitude r, longitude r)) fd)
      in if length m > MAP_SAMPLE_SIZE
         then sample lib MAP_SAMPLE_SIZE (Some 42) m g
         else (m, g))"

subsection \<open>Top 5 crime types (lines 159-167)\<close>

text \<open>
  \<^verbatim>\<open>value_counts()\<close> leaves blank cells out, counts each remaining value and sorts
  the (value, count) rows by descending count. The values are met in the order of their
  first appearance in the column (\<open>unique\<close>; \<open>remdups\<close> alone would keep the last
  occurrence of each), and the sort is stable, so rows of equal count stay in the order
  of first appearance. \<^verbatim>\<open>head(5)\<close> keeps the first five rows.
\<close>

definition unique :: "'a list \<Rightarrow> 'a list" where
  "unique vals = rev (remdups (rev vals))"

definition value_counts :: "'k option list \<Rightarrow> ('k option \<times> nat) list" where
  "value_counts col =
     (let vals = filter (\<lambda>v. v \<noteq> None) col
      in sort_key (\<lambda>(k, n). - int n) (map (\<lambda>k. (k, count_list vals k)) (unique vals)))"

definition head :: "nat \<Rightarrow> 'a list \<Rightarrow> 'a list" where
  "head n rows = take n rows"

definition top_crimes :: "'a incident_scheme list \<Rightarrow> (string option \<times> nat) list" where
  "top_crimes fd = head 5 (value_counts (map primary_type fd))"

subsection \<open>The whole script\<close>

text \<open>
  One run of the script on a loaded table, with the two widget values and the
  process-wide generator state: either the exception that ends the run, or the four
  derived views and the generator state left behind. The top-5 view exists only when
  no crime type is selected (line 159).
\<close>

record 'a page =
  selected_rows :: "'a incident_scheme list"
  crime_count :: "(int \<times> nat) list"
  map_points :: "(real option \<times> real option) list"
  top5 :: "(string option \<times> nat) list option"

definition dashboard ::
  "'g rng_lib \<Rightarrow> 'a incident_scheme list \<Rightarrow> int \<times> int \<Rightarrow> string \<Rightarrow> 'g
     \<Rightarrow> error + ('a page \<times> 'g)" where
  "dashboard lib df year_range selected_crime g =
     (case min_year df of
        Inl e \<Rightarrow> Inl e
      | Inr lo \<Rightarrow>
          (case max_year df of
             Inl e \<Rightarrow> Inl e
           | Inr hi \<Rightarrow>
               (let fd = filtered_df df year_range selected_crime;
                    (m, g') = map_df lib fd g
                in Inr (\<lparr>selected_rows = fd,
                         crime_count = yearly_counts fd,
                         map_points = m,
                         top5 = (if selected_crime = ''All'' then Some (top_crimes fd) else None)\<rparr>,
                        g'))))"

subsection \<open>Example data\<close>

text \<open>
  A generator to run the definitions with: it rotates the index list by its state and
  steps the state. Four rows covering the blank cells, a table with two crime types of
  two rows each, and a table with six crime types of 10, 7, 5, 3, 2 and 1 rows.
\<close>

definition rotate_rng :: "nat rng_lib" where
  "rotate_rng = \<lparr>RandomState = (\<lambda>s. nat \<bar>s\<bar>), permutation = (\<lambda>g n. (rotate g [0..<n], Suc g))\<rparr>"

definition theft_2018 :: incident where
  "theft_2018 = \<lparr>year = 2018, primary_type = Some ''THEFT'', latitude = Some 41, longitude = Some (-87)\<rparr>"
definition theft_2019_no_lat :: incident where
  "theft_2019_no_lat = \<lparr>year = 2019, primary_type = Some ''THEFT'', latitude = None, longitude = Some (-87)\<rparr>"
definition untyped_2019 :: incident where
  "untyped_2019 = \<lparr>year = 2019, primary_type = None, latitude = Some 42, longitude = Some (-88)\<rparr>"
definition battery_2020 :: incident where
  "battery_2020 = \<lparr>year = 2020, primary_type = Some ''BATTERY'', latitude = Some 41, longitude = Some (-88)\<rparr>"
definition example_df :: "incident list" where
  "example_df = [theft_2018, theft_2019_no_lat, untyped_2019, battery_2020]"

definition of_type :: "string \<Rightarrow> incident" where
  "of_type c = \<lparr>year = 2019, primary_type = Some c, latitude = None, longitude = None\<rparr>"
definition tied_df :: "incident list" where
  "tied_df = [of_type ''A'', of_type ''B'', of_type ''B'', of_type ''A'']"
definition six_types_df :: "incident list" where
  "six_types_df = replicate 10 (of_type ''A'') @ replicate 7 (of_type ''B'') @
     replicate 5 (of_type ''C'') @ replicate 3 (of_type ''D'') @
     replicate 2 (of_type ''E'') @ replicate 1 (of_type ''F'')"

lemmas example_defs = example_df_def theft_2018_def theft_2019_no_lat_def untyped_2019_def
  battery_2020_def

text \<open>The example generator keeps the library's promise.\<close>

lemma valid_rotate_rng: "valid_rng rotate_rng"
  by (simp add: valid_rng_def rotate_rng_def lessThan_atLeast0)

section \<open>Sidebar bounds\<close>

lemma min_year_le: "min_year df = Inr lo \<Longrightarrow> r \<in> set df \<Longrightarrow> lo \<le> year r"
proof -
  assume a: "min_year df = Inr lo" and r: "r \<in> set df"
  from a obtain y ys where m: "map year df = y # ys" and lo: "lo = fold min ys y"
    by (auto simp: min_year_def split: list.splits)
  have "lo = Min (set (map year df))" unfolding m lo by (simp only: Min.set_eq_fold)
  moreover have "year r \<in> set (map year df)" using r by simp
  ultimately show ?thesis by (metis List.finite_set Min_le)
qed

lemma max_year_ge: "max_year df = Inr hi \<Longrightarrow> r \<in> set df \<Longrightarrow> year r \<le> hi"
proof -
  assume a: "max_year df = Inr hi" and r: "r \<in> set df"
  from a obtain y ys where m: "map year df = y # ys" and hi: "hi = fold max ys y"
    by (auto simp: max_year_def split: list.splits)
  have "hi = Max (set (map year df))" unfolding m hi by (simp only: Max.set_eq_fold)
  moreover have "year r \<in> set (map year df)" using r by simp
  ultimately show ?thesis by (metis List.finite_set Max_ge)
qed

lemma min_year_nonempty: "df \<noteq> [] \<Longrightarrow> \<exists>lo. min_year df = Inr lo"
  by (cases df) (simp_all add: min_year_def)

lemma max_year_nonempty: "df \<noteq> [] \<Longrightarrow> \<exists>hi. max_year df = Inr hi"
  by (cases df) (simp_all add: max_year_def)

section \<open>Filtering\<close>

lemma filtered_df_iff:
  "r \<in> set (filtered_df df yr sel) \<longleftrightarrow>
     r \<in> set df \<and> fst yr \<le> year r \<and> year r \<le> snd yr \<and>
     (sel = ''All'' \<or> primary_type r = Some sel)"
  by (auto simp: filtered_df_def Let_def)

lemma filtered_df_subseq: "subseq (filtered_df df yr sel) df"
  by (auto simp: filtered_df_def Let_def intro: subseq_order.trans)

text \<open>The run on an empty selection, and the runs that raise or do not.\<close>

lemma yearly_counts_Nil: "yearly_counts [] = []"
  by (simp add: yearly_counts_def groupby_size_def sort_values_def)

lemma map_df_Nil: "map_df lib [] g = ([], g)"
  by (simp add: map_df_def dropna_def)

lemma top_crimes_Nil: "top_crimes [] = []"
  by (simp add: top_crimes_def head_def value_counts_def unique_def)

lemma dashboard_empty_selection:
  assumes "df \<noteq> []" "filtered_df df yr sel = []"
  shows "dashboard lib df yr sel g =
     Inr (\<lparr>selected_rows = [], crime_count = [], map_points = [],
           top5 = (if sel = ''All'' then Some [] else None)\<rparr>, g)"
proof -
  obtain lo hi where "min_year df = Inr lo" "max_year df = Inr hi"
    using assms(1) min_year_nonempty max_year_nonempty by blast
  then show ?thesis
    by (simp add: dashboard_def assms(2) yearly_counts_Nil map_df_Nil top_crimes_Nil)
qed

lemma dashboard_Nil: "dashboard lib [] yr sel g = Inl ValueError"
  by (simp add: dashboard_def min_year_def)

lemma dashboard_runs: "df \<noteq> [] \<Longrightarrow> \<exists>pg. dashboard lib df yr sel g = Inr pg"
proof -
  assume "df \<noteq> []"
  then obtain lo hi where "min_year df = Inr lo" "max_year df = Inr hi"
    using min_year_nonempty max_year_nonempty by blast
  then show ?thesis by (simp add: dashboard_def Let_def split: prod.splits)
qed

text \<open>
  C1. A row is in the filtered table exactly when it is a row of the dataset, its year
  lies between the two ends of the year range, and either the selected crime type is
  the sentinel \<open>''All''\<close> or the row's primary type is the selected one.
\<close>

theorem filtered_df_member:
  "r \<in> set (filtered_df df (year_min, year_max) category) \<longleftrightarrow>
     r \<in> set df \<and> year_min \<le> year r \<and> year r \<le> year_max \<and>
     (category = ''All'' \<or> primary_type r = Some category)"
  by (auto simp: filtered_df_def Let_def)

text \<open>
  C2. The filtered table is a subsequence of the dataset, so the rows kept stay in their
  original order; and when the filters leave no row of a non-empty dataset, the run does
  not raise: it ends with every derived view empty and the generator state untouched.
\<close>

theorem filtered_df_order:
  "subseq (filtered_df df yr sel) df \<and>
   (df \<noteq> [] \<and> filtered_df df yr sel = [] \<longrightarrow>
      dashboard lib df yr sel g =
        Inr (\<lparr>selected_rows = [], crime_count = [], map_points = [],
              top5 = (if sel = ''All'' then Some [] else None)\<rparr>, g))"
  by (simp add: filtered_df_subseq dashboard_empty_selection)

theorem filtered_df_order_witness:
  "filtered_df example_df (2021, 2022) ''All'' = [] \<and>
   dashboard rotate_rng example_df (2021, 2022) ''All'' 0 =
     Inr (\<lparr>selected_rows = [], crime_count = [], map_points = [], top5 = Some []\<rparr>, 0) \<and>
   subseq (filtered_df example_df (2019, 2019) ''THEFT'') example_df"
  using filtered_df_order[of example_df "(2021, 2022)" "''All''" rotate_rng 0]
    filtered_df_order[of example_df "(2019, 2019)" "''THEFT''" rotate_rng 0]
  by (simp add: filtered_df_def example_defs)

text \<open>
  C9. With the year range set to the bounds the sidebar computes (the least and the
  greatest year of the dataset) and the crime type left at \<open>''All''\<close>, the filtered
  table is the dataset itself.
\<close>

theorem filtered_df_full_domain:
  "min_year df = Inr lo \<Longrightarrow> max_year df = Inr hi \<Longrightarrow> filtered_df df (lo, hi) ''All'' = df"
  by (simp add: filtered_df_def min_year_le max_year_ge)

theorem filtered_df_full_domain_witness:
  "min_year example_df = Inr 2018 \<and> max_year example_df = Inr 2020 \<and>
   filtered_df example_df (2018, 2020) ''All'' = example_df"
proof -
  have lo: "min_year example_df = Inr 2018" by (simp add: min_year_def example_defs)
  have hi: "max_year example_df = Inr 2020" by (simp add: max_year_def example_defs)
  from lo hi filtered_df_full_domain[OF lo hi] show ?thesis by simp
qed

section \<open>Crimes per year\<close>

lemma groupby_size_keys: "map fst (groupby_size ks) = sort (remdups ks)"
  by (simp add: groupby_size_def o_def)

lemma yearly_counts_eq: "yearly_counts fd = groupby_size (map year fd)"
  by (simp add: yearly_counts_def sort_values_def sort_key_id_if_sorted groupby_size_keys)

lemma count_year: "count_list (map year fd) y = length (filter (\<lambda>r. year r = y) fd)"
  by (induction fd) auto

text \<open>
  C3. The yearly table has its years in strictly ascending order (so one row per year),
  its years are exactly the years present in the filtered table, the count of each row
  is the number of filtered rows of that year, and the empty table gives the empty
  yearly table.
\<close>

theorem yearly_counts_spec:
  "sorted_wrt (<) (map fst (yearly_counts fd)) \<and>
   set (map fst (yearly_counts fd)) = year ` set fd \<and>
   (\<forall>(y, n) \<in> set (yearly_counts fd). n = length (filter (\<lambda>r. year r = y) fd)) \<and>
   yearly_counts [] = []"
proof -
  have keys: "map fst (yearly_counts fd) = sort (remdups (map year fd))"
    by (simp add: yearly_counts_eq groupby_size_keys)
  have a: "sorted_wrt (<) (map fst (yearly_counts fd))"
    unfolding keys by (simp add: strict_sorted_iff)
  have b: "set (map fst (yearly_counts fd)) = year ` set fd"
    unfolding keys by simp
  have c: "\<forall>(y, n) \<in> set (yearly_counts fd). n = length (filter (\<lambda>r. year r = y) fd)"
    by (auto simp: yearly_counts_eq groupby_size_def count_year)
  from a b c yearly_counts_Nil show ?thesis by blast
qed

theorem yearly_counts_spec_witness:
  "yearly_counts example_df = [(2018, 1), (2019, 2), (2020, 1)] \<and>
   (2019, 2) \<in> set (yearly_counts example_df) \<and>
   (2::nat) = length (filter (\<lambda>r. year r = 2019) example_df)"
  using yearly_counts_spec[of example_df]
  by (simp add: yearly_counts_def groupby_size_def sort_values_def example_defs)

text \<open>
  C4. The counts of the yearly table add up to the number of rows of the filtered table.
\<close>

theorem yearly_counts_sum: "sum_list (map snd (yearly_counts fd)) = length fd"
proof -
  let ?ks = "map year fd"
  have "map snd (yearly_counts fd) = map (count_list ?ks) (sort (remdups ?ks))"
    by (simp add: yearly_counts_eq groupby_size_def o_def)
  then have "sum_list (map snd (yearly_counts fd)) = sum (count_list ?ks) (set ?ks)"
    by (simp add: sum_list_distinct_conv_sum_set)
  also have "\<dots> = length ?ks" by (rule sum_count_set) simp_all
  finally show ?thesis by simp
qed

text \<open>Scenario 1 of the specification: years 2018, 2019, 2019, 2020 and the range 2019-2019.\<close>

lemma scenario_single_year:
  "length (filtered_df example_df (2019, 2019) ''All'') = 2 \<and>
   yearly_counts (filtered_df example_df (2019, 2019) ''All'') = [(2019, 2)]"
  by (simp add: filtered_df_def yearly_counts_def groupby_size_def sort_values_def example_defs)

section \<open>Map sample\<close>

lemma dropna_coords:
  "dropna (map (\<lambda>r. (latitude r, longitude r)) fd) =
     map (\<lambda>r. (latitude r, longitude r)) (filter (\<lambda>r. latitude r \<noteq> None \<and> longitude r \<noteq> None) fd)"
  by (induction fd) (simp_all add: dropna_def)

lemma dropna_present: "p \<in> set (dropna rows) \<Longrightarrow> fst p \<noteq> None \<and> snd p \<noteq> None"
  by (auto simp: dropna_def)

lemma permutation_length:
  "valid_rng lib \<Longrightarrow> length (fst (permutation lib g n)) = n"
  by (metis valid_rng_def distinct_card card_lessThan)

lemma permutation_bound:
  "valid_rng lib \<Longrightarrow> i \<in> set (fst (permutation lib g n)) \<Longrightarrow> i < n"
  by (simp add: valid_rng_def)

lemma sample_seeded_subset:
  assumes "valid_rng lib"
  shows "set (fst (sample lib n (Some s) rows g)) \<subseteq> set rows"
proof
  fix x assume "x \<in> set (fst (sample lib n (Some s) rows g))"
  then obtain i where i: "i \<in> set (take n (fst (permutation lib (RandomState lib s) (length rows))))"
    and x: "x = rows ! i"
    by (auto simp: sample_def)
  from i have "i < length rows"
    using permutation_bound[OF assms] by (meson in_set_takeD)
  with x show "x \<in> set rows" by simp
qed

lemma sample_seeded_length:
  assumes "valid_rng lib" "n \<le> length rows"
  shows "length (fst (sample lib n (Some s) rows g)) = n"
  using assms by (simp add: sample_def permutation_length)

lemma map_df_subset:
  assumes "valid_rng lib"
  shows "set (fst (map_df lib fd g)) \<subseteq> set (dropna (map (\<lambda>r. (latitude r, longitude r)) fd))"
proof (cases "length (dropna (map (\<lambda>r. (latitude r, longitude r)) fd)) > MAP_SAMPLE_SIZE")
  case True
  then have "map_df lib fd g =
      sample lib MAP_SAMPLE_SIZE (Some 42) (dropna (map (\<lambda>r. (latitude r, longitude r)) fd)) g"
    by (simp add: map_df_def Let_def)
  then show ?thesis using sample_seeded_subset[OF assms] by simp
next
  case False
  then show ?thesis by (simp add: map_df_def Let_def)
qed

lemma map_df_small:
  "length (dropna (map (\<lambda>r. (latitude r, longitude r)) fd)) \<le> MAP_SAMPLE_SIZE \<Longrightarrow>
   map_df lib fd g = (dropna (map (\<lambda>r. (latitude r, longitude r)) fd), g)"
  by (simp add: map_df_def Let_def)

lemma map_df_large:
  "valid_rng lib \<Longrightarrow> length (dropna (map (\<lambda>r. (latitude r, longitude r)) fd)) > MAP_SAMPLE_SIZE \<Longrightarrow>
   length (fst (map_df lib fd g)) = MAP_SAMPLE_SIZE"
  by (simp add: map_df_def Let_def sample_seeded_length)

text \<open>
  C5. With a generator that keeps the library's promise: no point of the map sample lacks
  a coordinate; when at most 50000 rows have both coordinates, the sample is exactly the
  coordinate pairs of those rows in their order; when more have, the sample has exactly
  50000 points; in both cases its length is at most the smaller of the two numbers.
\<close>

theorem map_df_spec:
  assumes "valid_rng lib"
  shows "(\<forall>p \<in> set (fst (map_df lib fd g)). fst p \<noteq> None \<and> snd p \<noteq> None) \<and>
     (length (filter (\<lambda>r. latitude r \<noteq> None \<and> longitude r \<noteq> None) fd) \<le> 50000 \<longrightarrow>
        fst (map_df lib fd g) =
          map (\<lambda>r. (latitude r, longitude r))
            (filter (\<lambda>r. latitude r \<noteq> None \<and> longitude r \<noteq> None) fd)) \<and>
     (length (filter (\<lambda>r. latitude r \<noteq> None \<and> longitude r \<noteq> None) fd) > 50000 \<longrightarrow>
        length (fst (map_df lib fd g)) = 50000) \<and>
     length (fst (map_df lib fd g)) \<le>
        min (length (filter (\<lambda>r. latitude r \<noteq> None \<and> longitude r \<noteq> None) fd)) 50000"
proof -
  let ?m = "dropna (map (\<lambda>r. (latitude r, longitude r)) fd)"
  let ?present = "filter (\<lambda>r. latitude r \<noteq> None \<and> longitude r \<noteq> None) fd"
  have len: "length ?m = length ?present" by (simp add: dropna_coords)
  have a: "\<forall>p \<in> set (fst (map_df lib fd g)). fst p \<noteq> None \<and> snd p \<noteq> None"
    using map_df_subset[OF assms] dropna_present by blast
  have b: "length ?present \<le> 50000 \<longrightarrow>
        fst (map_df lib fd g) = map (\<lambda>r. (latitude r, longitude r)) ?present"
    using map_df_small[of fd lib g] len by (simp add: MAP_SAMPLE_SIZE_def dropna_coords)
  have c: "length ?present > 50000 \<longrightarrow> length (fst (map_df lib fd g)) = 50000"
    using map_df_large[OF assms, of fd g] len by (simp add: MAP_SAMPLE_SIZE_def)
  have d: "length (fst (map_df lib fd g)) \<le> min (length ?present) 50000"
  proof (cases "length ?present \<le> 50000")
    case True
    with b show ?thesis by simp
  next
    case False
    with c show ?thesis by simp
  qed
  from a b c d show ?thesis by blast
qed

lemma present_replicate:
  "filter (\<lambda>r. latitude r \<noteq> None \<and> longitude r \<noteq> None) (replicate n theft_2018) =
     replicate n theft_2018"
  by (simp add: theft_2018_def)

theorem map_df_spec_witness:
  "length (fst (map_df rotate_rng (replicate 50001 theft_2018) 0)) = 50000 \<and>
   fst (map_df rotate_rng example_df 0) =
     [(Some 41, Some (-87)), (Some 42, Some (-88)), (Some 41, Some (-88))]"
  using map_df_spec[OF valid_rotate_rng, of "replicate 50001 theft_2018" 0]
    map_df_spec[OF valid_rotate_rng, of example_df 0]
  by (simp add: present_replicate) (simp add: example_defs)

text \<open>
  C6. The map sample of a filtered table is the same in any two runs: it does not depend
  on the process-wide generator state the run starts from, and the run leaves that state
  as it found it.
\<close>

theorem map_df_deterministic:
  "fst (map_df lib fd g1) = fst (map_df lib fd g2) \<and> snd (map_df lib fd g1) = g1"
  by (simp add: map_df_def Let_def sample_def)

text \<open>Sampling without a seed, in contrast, follows the process-wide state.\<close>

lemma sample_unseeded_follows_state:
  "fst (sample rotate_rng 1 None [a, b] 0) = [a] \<and>
   fst (sample rotate_rng 1 None [a, b] 1) = [b]"
  by (simp add: sample_def rotate_rng_def)

text \<open>
  C10. With a generator that keeps the library's promise, every point of the map sample
  of a filtered table is the coordinate pair of a row of the dataset whose year lies in
  the year range and whose primary type is the selected one when a crime type is
  selected.
\<close>

theorem map_df_from_filtered:
  assumes "valid_rng lib"
  shows "\<forall>p \<in> set (fst (map_df lib (filtered_df df (year_min, year_max) category) g)).
           \<exists>r \<in> set df. p = (latitude r, longitude r) \<and>
              year_min \<le> year r \<and> year r \<le> year_max \<and>
              (category \<noteq> ''All'' \<longrightarrow> primary_type r = Some category)"
proof
  fix p
  assume "p \<in> set (fst (map_df lib (filtered_df df (year_min, year_max) category) g))"
  then have "p \<in> set (dropna (map (\<lambda>r. (latitude r, longitude r))
       (filtered_df df (year_min, year_max) category)))"
    using map_df_subset[OF assms] by blast
  then obtain r where r: "r \<in> set (filtered_df df (year_min, year_max) category)"
      and p: "p = (latitude r, longitude r)"
    by (auto simp: dropna_coords)
  from r have "r \<in> set df \<and> year_min \<le> year r \<and> year r \<le> year_max \<and>
     (category = ''All'' \<or> primary_type r = Some category)"
    by (auto simp: filtered_df_def Let_def split: if_splits)
  with p show "\<exists>r \<in> set df. p = (latitude r, longitude r) \<and>
              year_min \<le> year r \<and> year r \<le> year_max \<and>
              (category \<noteq> ''All'' \<longrightarrow> primary_type r = Some category)"
    by blast
qed

theorem map_df_from_filtered_witness:
  "(Some 41, Some (-87)) \<in> set (fst (map_df rotate_rng (filtered_df example_df (2018, 2019) ''THEFT'') 0)) \<and>
   (\<exists>r \<in> set example_df. (Some 41, Some (-87)) = (latitude r, longitude r) \<and>
       2018 \<le> year r \<and> year r \<le> 2019 \<and> primary_type r = Some ''THEFT'')"
proof -
  have m: "fst (map_df rotate_rng (filtered_df example_df (2018, 2019) ''THEFT'') 0) =
      [(Some 41, Some (-87))]"
    by (simp add: map_df_def dropna_def MAP_SAMPLE_SIZE_def filtered_df_def example_defs)
  from map_df_from_filtered[OF valid_rotate_rng, of example_df 2018 2019 "''THEFT''" 0]
  show ?thesis unfolding m by simp
qed

section \<open>Top 5 crime types\<close>

lemma count_list_dropna:
  "k \<noteq> None \<Longrightarrow> count_list (filter (\<lambda>v. v \<noteq> None) col) k = count_list col k"
  by (induction col) auto

lemma count_primary_type:
  "count_list (map primary_type fd) k = length (filter (\<lambda>r. primary_type r = k) fd)"
  by (induction fd) auto

lemma set_unique: "set (unique vals) = set vals"
  by (simp add: unique_def)

lemma distinct_unique: "distinct (unique vals)"
  by (simp add: unique_def)

lemma length_unique: "length (unique vals) = card (set vals)"
  using length_remdups_card_conv[of "rev vals"] by (simp add: unique_def)

lemma value_counts_set:
  "set (value_counts col) = {(k, count_list col k) | k. k \<in> set col \<and> k \<noteq> None}"
proof -
  let ?vals = "filter (\<lambda>v. v \<noteq> None) col"
  have "set (value_counts col) = (\<lambda>k. (k, count_list ?vals k)) ` set ?vals"
    by (simp add: value_counts_def Let_def set_unique del: not_None_eq)
  also have "\<dots> = (\<lambda>k. (k, count_list col k)) ` set ?vals"
    by (rule image_cong) (simp_all add: count_list_dropna del: not_None_eq)
  also have "\<dots> = {(k, count_list col k) | k. k \<in> set col \<and> k \<noteq> None}"
    by (auto simp del: not_None_eq)
  finally show ?thesis .
qed

lemma value_counts_keys_distinct: "distinct (map fst (value_counts col))"
proof -
  let ?vals = "filter (\<lambda>v. v \<noteq> None) col"
  let ?rows = "map (\<lambda>k. (k, count_list ?vals k)) (unique ?vals)"
  have "distinct ?rows" by (simp add: distinct_map inj_on_def distinct_unique)
  moreover have "inj_on fst (set ?rows)" by (auto simp: inj_on_def)
  ultimately show ?thesis
    by (simp add: value_counts_def Let_def distinct_map del: not_None_eq)
qed

lemma value_counts_sorted: "sorted_wrt (\<ge>) (map snd (value_counts col))"
proof -
  let ?f = "\<lambda>(k :: 'a option, n :: nat). - int n"
  have "sorted (map ?f (value_counts col))"
    by (simp add: value_counts_def Let_def)
  then have "sorted_wrt (\<lambda>a b. ?f a \<le> ?f b) (value_counts col)"
    by (simp add: sorted_map)
  then have "sorted_wrt (\<lambda>a b. snd a \<ge> snd b) (value_counts col)"
    by (rule sorted_wrt_mono_rel[rotated]) auto
  then show ?thesis by (simp add: sorted_wrt_map)
qed

lemma value_counts_length:
  "length (value_counts col) = card {k \<in> set col. k \<noteq> None}"
  by (simp add: value_counts_def Let_def length_unique del: not_None_eq)

lemma sorted_wrt_take_drop:
  "sorted_wrt P xs \<Longrightarrow> x \<in> set (take n xs) \<Longrightarrow> y \<in> set (drop n xs) \<Longrightarrow> P x y"
  by (metis append_take_drop_id sorted_wrt_append)

lemma top_crimes_entry:
  "(k, n) \<in> set (top_crimes fd) \<Longrightarrow>
     k \<noteq> None \<and> k \<in> primary_type ` set fd \<and>
     n = length (filter (\<lambda>r. primary_type r = k) fd)"
proof -
  assume "(k, n) \<in> set (top_crimes fd)"
  then have "(k, n) \<in> set (value_counts (map primary_type fd))"
    unfolding top_crimes_def head_def by (rule in_set_takeD)
  then show ?thesis by (auto simp: value_counts_set count_primary_type)
qed

text \<open>Types of equal count come in the order of their first appearance.\<close>

lemma top_crimes_tie: "top_crimes tied_df = [(Some ''A'', 2), (Some ''B'', 2)]"
  by (simp add: top_crimes_def head_def value_counts_def unique_def tied_df_def of_type_def)

text \<open>
  C7. The top-5 table has as many rows as there are non-blank crime types in the filtered
  table, but at most five; no row is for the blank type, each row is for a type present
  in the filtered table and its count is the number of filtered rows of that type; the
  types are pairwise different; the counts are in descending order; and every count in
  the table is at least the count of any crime type that is not in the table.
\<close>

theorem top_crimes_spec:
  "length (top_crimes fd) \<le> 5 \<and>
   length (top_crimes fd) = min 5 (card {k \<in> primary_type ` set fd. k \<noteq> None}) \<and>
   (\<forall>(k, n) \<in> set (top_crimes fd).
       k \<noteq> None \<and> k \<in> primary_type ` set fd \<and>
       n = length (filter (\<lambda>r. primary_type r = k) fd)) \<and>
   distinct (map fst (top_crimes fd)) \<and>
   sorted_wrt (\<ge>) (map snd (top_crimes fd)) \<and>
   (\<forall>c. Some c \<notin> fst ` set (top_crimes fd) \<longrightarrow>
      (\<forall>(k, n) \<in> set (top_crimes fd).
          n \<ge> length (filter (\<lambda>r. primary_type r = Some c) fd)))"
proof -
  let ?col = "map primary_type fd"
  let ?vc = "value_counts ?col"
  have top: "top_crimes fd = take 5 ?vc" by (simp add: top_crimes_def head_def)
  have a: "length (top_crimes fd) \<le> 5" by (simp add: top)
  have a': "length (top_crimes fd) = min 5 (card {k \<in> primary_type ` set fd. k \<noteq> None})"
    unfolding top by (simp add: value_counts_length min.commute del: not_None_eq)
  have b: "\<forall>(k, n) \<in> set (top_crimes fd).
       k \<noteq> None \<and> k \<in> primary_type ` set fd \<and>
       n = length (filter (\<lambda>r. primary_type r = k) fd)"
  proof -
    have "set (top_crimes fd) \<subseteq> set ?vc" unfolding top by (rule set_take_subset)
    then show ?thesis by (auto simp: value_counts_set count_primary_type)
  qed
  have c: "distinct (map fst (top_crimes fd))"
    unfolding top take_map[symmetric] by (rule distinct_take[OF value_counts_keys_distinct])
  have d: "sorted_wrt (\<ge>) (map snd (top_crimes fd))"
    unfolding top take_map[symmetric] by (rule sorted_wrt_take[OF value_counts_sorted])
  have e: "\<forall>(k, n) \<in> set (top_crimes fd).
          n \<ge> length (filter (\<lambda>r. primary_type r = Some c) fd)"
    if out: "Some c \<notin> fst ` set (top_crimes fd)" for c
  proof (cases "Some c \<in> set ?col")
    case False
    then have "count_list ?col (Some c) = 0" by (simp add: count_list_0_iff)
    then show ?thesis by (simp add: count_primary_type split: prod.splits)
  next
    case True
    then have "(Some c, count_list ?col (Some c)) \<in> set ?vc"
      by (simp add: value_counts_set)
    then have "(Some c, count_list ?col (Some c)) \<in> set (take 5 ?vc) \<union> set (drop 5 ?vc)"
      by (metis append_take_drop_id set_append)
    with out have dr: "(Some c, count_list ?col (Some c)) \<in> set (drop 5 ?vc)"
      unfolding top by force
    have s: "sorted_wrt (\<lambda>a b. snd a \<ge> snd b) ?vc"
      using value_counts_sorted[of ?col] by (simp add: sorted_wrt_map)
    show ?thesis
    proof (clarify)
      fix k n assume "(k, n) \<in> set (top_crimes fd)"
      then have "(k, n) \<in> set (take 5 ?vc)" by (simp add: top)
      from sorted_wrt_take_drop[OF s this dr]
      show "length (filter (\<lambda>r. primary_type r = Some c) fd) \<le> n"
        by (simp add: count_primary_type)
    qed
  qed
  from a a' b c d e show ?thesis by blast
qed

lemma top_crimes_six_types:
  "top_crimes six_types_df =
     [(Some ''A'', 10), (Some ''B'', 7), (Some ''C'', 5), (Some ''D'', 3), (Some ''E'', 2)]"
  by code_simp

lemma six_types_F: "length (filter (\<lambda>r. primary_type r = Some ''F'') six_types_df) = 1"
  by code_simp

theorem top_crimes_spec_witness:
  "top_crimes six_types_df =
     [(Some ''A'', 10), (Some ''B'', 7), (Some ''C'', 5), (Some ''D'', 3), (Some ''E'', 2)] \<and>
   length (top_crimes six_types_df) = 5 \<and>
   Some ''F'' \<notin> fst ` set (top_crimes six_types_df) \<and>
   length (filter (\<lambda>r. primary_type r = Some ''F'') six_types_df) \<le> 2"
  using top_crimes_spec[of six_types_df]
  by (simp add: top_crimes_six_types six_types_F)

section \<open>Rows with blank cells\<close>

text \<open>
  C8. A row with a blank primary type or a blank coordinate raises nothing: the run on a
  dataset holding it ends normally. Such a row stays in the filtered table whenever it
  meets the filters (a row with a blank type meets them when no crime type is
  selected), the top-5 table has no row for the blank type, and the map sample has no
  point for a row that lacks a coordinate.
\<close>

theorem missing_values_kept:
  assumes "valid_rng lib" "r \<in> set df" "year_min \<le> year r" "year r \<le> year_max"
  shows "(\<exists>pg. dashboard lib df (year_min, year_max) category g = Inr pg) \<and>
    (primary_type r = None \<longrightarrow>
       r \<in> set (filtered_df df (year_min, year_max) ''All'') \<and>
       None \<notin> fst ` set (top_crimes (filtered_df df (year_min, year_max) ''All''))) \<and>
    ((latitude r = None \<or> longitude r = None) \<and>
     (category = ''All'' \<or> primary_type r = Some category) \<longrightarrow>
       r \<in> set (filtered_df df (year_min, year_max) category) \<and>
       (latitude r, longitude r) \<notin>
          set (fst (map_df lib (filtered_df df (year_min, year_max) category) g)))"
proof -
  have a: "\<exists>pg. dashboard lib df (year_min, year_max) category g = Inr pg"
    using assms(2) by (intro dashboard_runs) auto
  have b: "r \<in> set (filtered_df df (year_min, year_max) ''All'')"
    using assms by (simp add: filtered_df_iff)
  have c: "None \<notin> fst ` set (top_crimes fd)" for fd :: "'b incident_scheme list"
    using top_crimes_entry[of None _ fd] by force
  have d: "r \<in> set (filtered_df df (year_min, year_max) category)"
    if "category = ''All'' \<or> primary_type r = Some category"
    using assms that by (simp add: filtered_df_iff)
  have e: "(latitude r, longitude r) \<notin> set (fst (map_df lib fd g))"
    if "latitude r = None \<or> longitude r = None" for fd :: "'b incident_scheme list"
  proof
    assume "(latitude r, longitude r) \<in> set (fst (map_df lib fd g))"
    then have "(latitude r, longitude r) \<in> set (dropna (map (\<lambda>r. (latitude r, longitude r)) fd))"
      using map_df_subset[OF assms(1)] by blast
    from dropna_present[OF this] that show False by auto
  qed
  from a b c d e show ?thesis by blast
qed

theorem missing_values_kept_witness:
  "untyped_2019 \<in> set (filtered_df example_df (2018, 2020) ''All'') \<and>
   None \<notin> fst ` set (top_crimes (filtered_df example_df (2018, 2020) ''All'')) \<and>
   theft_2019_no_lat \<in> set (filtered_df example_df (2018, 2020) ''THEFT'') \<and>
   (None, Some (-87)) \<notin>
      set (fst (map_df rotate_rng (filtered_df example_df (2018, 2020) ''THEFT'') 0)) \<and>
   (\<exists>pg. dashboard rotate_rng example_df (2018, 2020) ''THEFT'' 0 = Inr pg)"
proof -
  have v: "valid_rng rotate_rng" by (rule valid_rotate_rng)
  have m1: "untyped_2019 \<in> set example_df" and m2: "theft_2019_no_lat \<in> set example_df"
    by (simp_all add: example_df_def)
  have y1: "2018 \<le> year untyped_2019" "year untyped_2019 \<le> 2020"
    and y2: "2018 \<le> year theft_2019_no_lat" "year theft_2019_no_lat \<le> 2020"
    by (simp_all add: untyped_2019_def theft_2019_no_lat_def)
  from missing_values_kept[OF v m1 y1, of "''All''" 0]
    missing_values_kept[OF v m2 y2, of "''THEFT''" 0]
  show ?thesis by (simp add: untyped_2019_def theft_2019_no_lat_def)
qed

end
